theory Spec2Isabelle
  imports Complex_Main
begin

section \<open>The BERT pipeline definition builder (pipelines/dsoaws/pipeline.py)\<close>

text \<open>
  The module builds one descriptor, a pipeline of SageMaker steps, by straight-line
  construction. Every descriptor is plain data, so each Python object is modelled as a
  record (or a datatype) of the keyword arguments the source passes to its constructor.
  What the module takes from outside itself is made explicit:
  \<^item> the interpreter and the libraries (the rendering of a float by \<open>str\<close>, the
    creation of the boto3 client, the request the SDK computes for a step, the image
    registry) are the fields of a record \<open>platform\<close>; a call into a library returns a
    value or raises;
  \<^item> the module's global namespace, in which Python resolves at call time every name
    the function does not assign, is a record \<open>namespace\<close>; a name the module may
    lack is an \<open>option\<close>, and reading it when it is \<open>None\<close> raises \<open>NameError\<close>;
  \<^item> a name the function assigns anywhere in its body, be it by an \<open>import\<close>, is a
    local variable of the function for the whole body: reading it before the assignment
    has run raises \<open>UnboundLocalError\<close> (a subclass of \<open>NameError\<close>), whatever the
    module namespace holds under that name.
\<close>

subsection \<open>Values, errors, name resolution\<close>

datatype error = NameError string | UnboundLocalError string | IndexError | LibraryError string

datatype pyval = PyStr string | PyInt int | PyFloat rat | PyBool bool

fun bind_res :: "error + 'a \<Rightarrow> ('a \<Rightarrow> error + 'b) \<Rightarrow> error + 'b" where
  "bind_res (Inl e) f = Inl e"
| "bind_res (Inr v) f = f v"

fun load_global :: "string \<Rightarrow> 'a option \<Rightarrow> error + 'a" where
  "load_global n None = Inl (NameError n)"
| "load_global n (Some v) = Inr v"

text \<open>
  The \<open>import\<close> statements inside \<open>get_pipeline\<close>, each with the names it binds and its
  line. The function has no \<open>global\<close> statement, so each of these names is a local
  variable, unbound until its import has run. The code is a straight line: a statement
  has run exactly when its line precedes the line that is running.
\<close>

definition function_imports :: "(string \<times> nat) list" where
  "function_imports =
     [(''SKLearnProcessor'', 373),
      (''PropertyFile'', 383),
      (''MetricsSource'', 420),
      (''ModelMetrics'', 420),
      (''ConditionGreaterThanOrEqualTo'', 460),
      (''ConditionStep'', 461),
      (''JsonGet'', 461)]"

definition load_fast :: "string \<Rightarrow> nat \<Rightarrow> error + unit" where
  "load_fast n line =
     (if list_ex (\<lambda>(m, l). m = n \<and> l < line) function_imports then Inr ()
      else Inl (UnboundLocalError n))"

subsection \<open>\<open>str\<close> and \<open>os.path.join\<close>\<close>

definition digit_char :: "nat \<Rightarrow> char" where
  "digit_char d = ''0123456789'' ! d"

fun str_nat :: "nat \<Rightarrow> string" where
  "str_nat n = (if n < 10 then [digit_char n] else str_nat (n div 10) @ [digit_char (n mod 10)])"

declare str_nat.simps [simp del]

definition str_int :: "int \<Rightarrow> string" where
  "str_int i = (if i < 0 then CHR ''-'' # str_nat (nat (- i)) else str_nat (nat i))"

text \<open>
  \<open>str\<close> on the values the builder renders. The digits CPython prints for a float are
  the interpreter's business: they are the parameter \<open>float_str\<close>.
\<close>

fun py_str :: "(rat \<Rightarrow> string) \<Rightarrow> pyval \<Rightarrow> string" where
  "py_str float_str (PyStr s) = s"
| "py_str float_str (PyInt i) = str_int i"
| "py_str float_str (PyFloat x) = float_str x"
| "py_str float_str (PyBool b) = (if b then ''True'' else ''False'')"

text \<open>\<open>posixpath.join\<close> of two components.\<close>

definition os_path_join :: "string \<Rightarrow> string \<Rightarrow> string" where
  "os_path_join a b =
     (if b \<noteq> [] \<and> hd b = CHR ''/'' then b
      else if a = [] \<or> last a = CHR ''/'' then a @ b
      else a @ ''/'' @ b)"

subsection \<open>Descriptors\<close>

datatype parameter =
    ParameterString string string
  | ParameterInteger string int
  | ParameterFloat string rat

fun name :: "parameter \<Rightarrow> string" where
  "name (ParameterString n d) = n"
| "name (ParameterInteger n d) = n"
| "name (ParameterFloat n d) = n"

fun default_value :: "parameter \<Rightarrow> pyval" where
  "default_value (ParameterString n d) = PyStr d"
| "default_value (ParameterInteger n d) = PyInt d"
| "default_value (ParameterFloat n d) = PyFloat d"

text \<open>
  A value handed to the SDK is a literal, a pipeline parameter (resolved by the service
  when the pipeline is started), or a property of a step (\<open>step.properties.A.B['k']\<close>,
  resolved when that step has run); the step is referred to by its name.
\<close>

datatype path_elem = Attr string | Key string

datatype expr =
    Lit pyval
  | Param parameter
  | Property string "path_elem list"

record processing_input =
  input_name :: "string option"
  pi_source :: expr
  pi_destination :: string
  s3_data_distribution_type :: "string option"

record processing_output =
  output_name :: string
  s3_upload_mode :: string
  po_source :: string
  po_destination :: "string option"

record sklearn_processor =
  framework_version :: string
  role :: string
  instance_type :: parameter
  instance_count :: parameter
  env :: "(string \<times> string) list"
  max_runtime_in_seconds :: int

record property_file =
  pf_name :: string
  pf_output_name :: string
  path :: string

record processing_step =
  ps_name :: string
  ps_processor :: sklearn_processor
  inputs :: "processing_input list"
  outputs :: "processing_output list"
  job_arguments :: "expr list"
  code :: string
  property_files :: "property_file list"

record tf_kwargs =
  entry_point :: string
  source_dir :: string
  tf_role :: string
  output_path :: string
  tf_instance_count :: parameter
  tf_instance_type :: parameter
  volume_size :: int
  py_version :: string
  tf_framework_version :: string
  hyperparameters :: "(string \<times> expr) list"
  input_mode :: string
  metric_definitions :: "(string \<times> string) list"

text \<open>An estimator object is described by the arguments it was built from.\<close>

type_synonym estimator = tf_kwargs

record training_input =
  s3_data :: expr
  content_type :: string

record training_step =
  ts_name :: string
  ts_estimator :: estimator
  ts_inputs :: "(string \<times> training_input) list"

record metrics_source =
  s3_uri :: string
  ms_content_type :: string

record model_metrics =
  model_statistics :: metrics_source

record register_model =
  rm_name :: string
  rm_estimator :: estimator
  image_uri :: string
  model_data :: expr
  content_types :: "string list"
  response_types :: "string list"
  inference_instances :: "parameter list"
  transform_instances :: "parameter list"
  model_package_group_name :: string
  approval_status :: parameter

record json_get =
  jg_step :: processing_step
  jg_property_file :: property_file
  json_path :: string

datatype condition = ConditionGreaterThanOrEqualTo (left: json_get) (right: rat)

datatype step =
    ProcessingStep processing_step
  | TrainingStep training_step
  | RegisterModel register_model
  | ConditionStep (cs_name: string) (conditions: "condition list")
      (if_steps: "step list") (else_steps: "step list")

record session =
  default_bucket :: string

record pipeline =
  pl_name :: string
  parameters :: "parameter list"
  steps :: "step list"
  sagemaker_session :: session

subsection \<open>The platform and the module namespace\<close>

text \<open>
  \<^item> \<open>float_str\<close> is \<open>str\<close> on floats.
  \<^item> \<open>boto3_client region\<close> is \<open>boto3.Session().client(service_name='sagemaker',
    region_name=region)\<close> (line 106), which raises on a region it does not accept.
  \<^item> \<open>step_arguments step\<close> is \<open>step.arguments\<close> (line 425). The SDK normalises the
    inputs and outputs of the step in place (it names the unnamed inputs and gives every
    output without a destination a location under a time-stamped job name), looks for the
    code file, and returns the request, of which the builder reads
    \<open>["ProcessingOutputConfig"]["Outputs"]\<close>; or it raises. The result is the step as the
    SDK leaves it together with these outputs.
  \<^item> \<open>image_uris_retrieve\<close> is \<open>sagemaker.image_uris.retrieve\<close> (line 435).
  The constructors of the SDK's descriptors store their keyword arguments.
\<close>

record s3_output =
  OutputName :: string
  S3Uri :: string

record platform =
  float_str :: "rat \<Rightarrow> string"
  boto3_client :: "string \<Rightarrow> error + unit"
  step_arguments :: "processing_step \<Rightarrow> error + processing_step \<times> s3_output list"
  image_uris_retrieve ::
    "string \<Rightarrow> string \<Rightarrow> string \<Rightarrow> string \<Rightarrow> parameter \<Rightarrow> string \<Rightarrow> error + string"

record namespace =
  sess :: session
  bucket :: string
  timestamp :: string
  BASE_DIR :: string
  TensorFlow :: "(tf_kwargs \<Rightarrow> estimator) option"
  step_process :: "processing_step option"
  raw_input_data_s3_uri :: "expr option"
  step_train :: "training_step option"

text \<open>
  Lines 62 to 69: what importing the module binds. \<open>the_session\<close> is
  \<open>sagemaker.Session()\<close>, \<open>ticks\<close> is \<open>int(time.time() * 10**7)\<close> and \<open>file_dir\<close> is
  \<open>os.path.dirname(os.path.realpath(__file__))\<close>. The import of \<open>TensorFlow\<close> is
  commented out (line 281) and no statement of the module assigns \<open>step_process\<close>,
  \<open>raw_input_data_s3_uri\<close> or \<open>step_train\<close>: the four names stay unbound. The function
  does not assign them either, so it reads them in this namespace.
\<close>

definition module_namespace :: "session \<Rightarrow> int \<Rightarrow> string \<Rightarrow> namespace" where
  "module_namespace the_session ticks file_dir =
     \<lparr> sess = the_session,
       bucket = default_bucket the_session,
       timestamp = str_int ticks,
       BASE_DIR = file_dir,
       TensorFlow = None,
       step_process = None,
       raw_input_data_s3_uri = None,
       step_train = None \<rparr>"

subsection \<open>Lines 108 to 190: the pipeline parameters\<close>

text \<open>
  The default values of the three split percentages (the literals \<open>0.90\<close>, \<open>0.05\<close>
  and \<open>0.05\<close> of lines 135, 140 and 145) are arguments of the declarations, so that a
  statement can range over them; \<open>get_pipeline\<close> below passes the literals.
\<close>

definition input_data :: "namespace \<Rightarrow> parameter" where
  "input_data g = ParameterString ''InputDataUrl'' (''s3://'' @ bucket g @ ''/amazon-reviews-pds/tsv/'')"

definition processing_instance_count :: parameter where
  "processing_instance_count = ParameterInteger ''ProcessingInstanceCount'' 1"

definition processing_instance_type :: parameter where
  "processing_instance_type = ParameterString ''ProcessingInstanceType'' ''ml.c5.2xlarge''"

definition max_seq_length :: parameter where
  "max_seq_length = ParameterInteger ''MaxSeqLength'' 64"

definition balance_dataset :: parameter where
  "balance_dataset = ParameterString ''BalanceDataset'' ''True''"

definition train_split_percentage :: "rat \<Rightarrow> parameter" where
  "train_split_percentage d = ParameterFloat ''TrainSplitPercentage'' d"

definition validation_split_percentage :: "rat \<Rightarrow> parameter" where
  "validation_split_percentage d = ParameterFloat ''ValidationSplitPercentage'' d"

definition test_split_percentage :: "rat \<Rightarrow> parameter" where
  "test_split_percentage d = ParameterFloat ''TestSplitPercentage'' d"

definition feature_store_offline_prefix :: "namespace \<Rightarrow> parameter" where
  "feature_store_offline_prefix g =
     ParameterString ''FeatureStoreOfflinePrefix'' (''reviews-feature-store-'' @ timestamp g)"

definition feature_group_name :: "namespace \<Rightarrow> parameter" where
  "feature_group_name g =
     ParameterString ''FeatureGroupName'' (''reviews-feature-group-'' @ timestamp g)"

definition train_instance_type :: parameter where
  "train_instance_type = ParameterString ''TrainingInstanceType'' ''ml.c5.9xlarge''"

definition train_instance_count :: parameter where
  "train_instance_count = ParameterInteger ''TrainingInstanceCount'' 1"

definition model_approval_status :: parameter where
  "model_approval_status = ParameterString ''ModelApprovalStatus'' ''PendingManualApproval''"

definition deploy_instance_type :: parameter where
  "deploy_instance_type = ParameterString ''DeployInstanceType'' ''ml.m5.4xlarge''"

definition deploy_instance_count :: parameter where
  "deploy_instance_count = ParameterInteger ''DeployInstanceCount'' 1"

subsection \<open>Lines 194 to 246: the processing step\<close>

definition processor :: "string \<Rightarrow> sklearn_processor" where
  "processor role_arg =
     \<lparr> framework_version = ''0.20.0'',
       role = role_arg,
       instance_type = processing_instance_type,
       instance_count = processing_instance_count,
       env = [],
       max_runtime_in_seconds = 7200 \<rparr>"

definition processing_inputs :: "namespace \<Rightarrow> processing_input list" where
  "processing_inputs g =
     [\<lparr> input_name = Some ''raw-input-data'',
        pi_source = Param (input_data g),
        pi_destination = ''/opt/ml/processing/input/data/'',
        s3_data_distribution_type = Some ''ShardedByS3Key'' \<rparr>]"

definition processing_outputs :: "processing_output list" where
  "processing_outputs =
     [\<lparr> output_name = ''bert-train'', s3_upload_mode = ''EndOfJob'',
        po_source = ''/opt/ml/processing/output/bert/train'',
        po_destination = None \<rparr>,
      \<lparr> output_name = ''bert-validation'', s3_upload_mode = ''EndOfJob'',
        po_source = ''/opt/ml/processing/output/bert/validation'',
        po_destination = None \<rparr>,
      \<lparr> output_name = ''bert-test'', s3_upload_mode = ''EndOfJob'',
        po_source = ''/opt/ml/processing/output/bert/test'',
        po_destination = None \<rparr>]"

definition str_lit :: "string \<Rightarrow> expr" where
  "str_lit s = Lit (PyStr s)"

definition processing_step :: "platform \<Rightarrow> namespace \<Rightarrow> rat \<Rightarrow> rat \<Rightarrow> rat \<Rightarrow> string \<Rightarrow> processing_step" where
  "processing_step py g tr va te role_arg =
     \<lparr> ps_name = ''Processing'',
       ps_processor = processor role_arg,
       inputs = processing_inputs g,
       outputs = processing_outputs,
       job_arguments =
         [str_lit ''--train-split-percentage'',
          str_lit (py_str (float_str py) (default_value (train_split_percentage tr))),
          str_lit ''--validation-split-percentage'',
          str_lit (py_str (float_str py) (default_value (validation_split_percentage va))),
          str_lit ''--test-split-percentage'',
          str_lit (py_str (float_str py) (default_value (test_split_percentage te))),
          str_lit ''--max-seq-length'',
          str_lit (py_str (float_str py) (default_value max_seq_length)),
          str_lit ''--balance-dataset'',
          str_lit (py_str (float_str py) (default_value balance_dataset)),
          str_lit ''--feature-store-offline-prefix'',
          str_lit (py_str (float_str py) (default_value (feature_store_offline_prefix g))),
          str_lit ''--feature-group-name'',
          str_lit (py_str (float_str py) (default_value (feature_group_name g)))],
       code = os_path_join (BASE_DIR g) ''preprocess-scikit-text-to-bert-feature-store.py'',
       property_files = [] \<rparr>"

subsection \<open>Lines 251 to 369: the estimator and the training step\<close>

text \<open>The group \<^verbatim>\<open>([0-9\.]+)\<close> of the metric patterns; the Python literal doubles the backslash.\<close>

definition number_regex :: string where
  "number_regex = ''([0-9'' @ [CHR 0x5C] @ ''.]+)''"

definition metrics_definitions :: "(string \<times> string) list" where
  "metrics_definitions =
     [(''train:loss'', ''loss: '' @ number_regex),
      (''train:accuracy'', ''accuracy: '' @ number_regex),
      (''validation:loss'', ''val_loss: '' @ number_regex),
      (''validation:accuracy'', ''val_accuracy: '' @ number_regex)]"

definition model_path :: "string \<Rightarrow> string \<Rightarrow> string" where
  "model_path default_bucket_arg base_job_prefix =
     ''s3://'' @ default_bucket_arg @ ''/'' @ base_job_prefix @ ''/output/model''"

definition estimator_kwargs :: "namespace \<Rightarrow> string \<Rightarrow> string \<Rightarrow> string \<Rightarrow> tf_kwargs" where
  "estimator_kwargs g role_arg default_bucket_arg base_job_prefix =
     \<lparr> entry_point = ''tf_bert_reviews.py'',
       source_dir = BASE_DIR g,
       tf_role = role_arg,
       output_path = model_path default_bucket_arg base_job_prefix,
       tf_instance_count = train_instance_count,
       tf_instance_type = train_instance_type,
       volume_size = 1024,
       py_version = ''py37'',
       tf_framework_version = ''2.3.1'',
       hyperparameters =
         [(''epochs'', Lit (PyInt 1)),
          (''learning_rate'', Lit (PyFloat (1 / 100000))),
          (''epsilon'', Lit (PyFloat (1 / 100000000))),
          (''train_batch_size'', Lit (PyInt 128)),
          (''validation_batch_size'', Lit (PyInt 128)),
          (''test_batch_size'', Lit (PyInt 128)),
          (''train_steps_per_epoch'', Lit (PyInt 50)),
          (''validation_steps'', Lit (PyInt 50)),
          (''test_steps'', Lit (PyInt 50)),
          (''use_xla'', Lit (PyBool True)),
          (''use_amp'', Lit (PyBool True)),
          (''max_seq_length'', Param max_seq_length),
          (''freeze_bert_layer'', Lit (PyBool False)),
          (''enable_sagemaker_debugger'', Lit (PyBool False)),
          (''enable_checkpointing'', Lit (PyBool False)),
          (''enable_tensorboard'', Lit (PyBool False)),
          (''run_validation'', Lit (PyBool True)),
          (''run_test'', Lit (PyBool False)),
          (''run_sample_predictions'', Lit (PyBool False))],
       input_mode = ''File'',
       metric_definitions = metrics_definitions \<rparr>"

text \<open>
  \<open>step.properties.ProcessingOutputConfig.Outputs[k].S3Output.S3Uri\<close> and
  \<open>step.properties.ModelArtifacts.S3ModelArtifacts\<close>.
\<close>

definition output_s3_uri_property :: "processing_step \<Rightarrow> string \<Rightarrow> expr" where
  "output_s3_uri_property s k =
     Property (ps_name s)
       [Attr ''ProcessingOutputConfig'', Attr ''Outputs'', Key k, Attr ''S3Output'', Attr ''S3Uri'']"

definition model_artifacts_property :: "training_step \<Rightarrow> expr" where
  "model_artifacts_property s = Property (ts_name s) [Attr ''ModelArtifacts'', Attr ''S3ModelArtifacts'']"

text \<open>
  Lines 346 to 369. The three channels read the global \<open>step_process\<close>; the processing
  step built above is the local \<open>processing_step\<close>, which the statement does not read.
\<close>

definition training_step :: "namespace \<Rightarrow> estimator \<Rightarrow> error + training_step" where
  "training_step g estimator_arg =
     bind_res (load_global ''step_process'' (step_process g)) (\<lambda>sp1.
     bind_res (load_global ''step_process'' (step_process g)) (\<lambda>sp2.
     bind_res (load_global ''step_process'' (step_process g)) (\<lambda>sp3.
       Inr \<lparr> ts_name = ''Train'',
             ts_estimator = estimator_arg,
             ts_inputs =
               [(''train'', \<lparr> s3_data = output_s3_uri_property sp1 ''bert-train'',
                              content_type = ''text/csv'' \<rparr>),
                (''validation'', \<lparr> s3_data = output_s3_uri_property sp2 ''bert-validation'',
                                   content_type = ''text/csv'' \<rparr>),
                (''test'', \<lparr> s3_data = output_s3_uri_property sp3 ''bert-test'',
                             content_type = ''text/csv'' \<rparr>)] \<rparr>)))"

subsection \<open>Lines 375 to 429: the evaluation step and the model metrics\<close>

definition evaluation_processor :: "string \<Rightarrow> string \<Rightarrow> sklearn_processor" where
  "evaluation_processor region role_arg =
     \<lparr> framework_version = ''0.23-1'',
       role = role_arg,
       instance_type = processing_instance_type,
       instance_count = processing_instance_count,
       env = [(''AWS_DEFAULT_REGION'', region)],
       max_runtime_in_seconds = 7200 \<rparr>"

definition evaluation_report :: property_file where
  "evaluation_report =
     \<lparr> pf_name = ''EvaluationReport'', pf_output_name = ''metrics'', path = ''evaluation.json'' \<rparr>"

text \<open>
  Lines 394 to 418. \<open>evaluation_step_descriptor\<close> is the step the statement describes,
  given the values of the names it reads; the statement reads the source of the second
  input from the global \<open>raw_input_data_s3_uri\<close>, after the first input has been built
  from the training step.
\<close>

definition evaluation_step_descriptor ::
    "platform \<Rightarrow> string \<Rightarrow> string \<Rightarrow> training_step \<Rightarrow> expr \<Rightarrow> processing_step" where
  "evaluation_step_descriptor py region role_arg training_step_arg raw =
     \<lparr> ps_name = ''EvaluateBERTModel'',
       ps_processor = evaluation_processor region role_arg,
       inputs =
         [\<lparr> input_name = None,
            pi_source = model_artifacts_property training_step_arg,
            pi_destination = ''/opt/ml/processing/input/model'',
            s3_data_distribution_type = None \<rparr>,
          \<lparr> input_name = None,
            pi_source = raw,
            pi_destination = ''/opt/ml/processing/input/data'',
            s3_data_distribution_type = None \<rparr>],
       outputs =
         [\<lparr> output_name = ''metrics'', s3_upload_mode = ''EndOfJob'',
            po_source = ''/opt/ml/processing/output/metrics/'',
            po_destination = None \<rparr>],
       job_arguments =
         [str_lit ''--max-seq-length'',
          str_lit (py_str (float_str py) (default_value max_seq_length))],
       code = ''evaluate_model_metrics.py'',
       property_files = [evaluation_report] \<rparr>"

definition evaluation_step ::
    "platform \<Rightarrow> namespace \<Rightarrow> string \<Rightarrow> string \<Rightarrow> training_step \<Rightarrow> error + processing_step" where
  "evaluation_step py g region role_arg training_step_arg =
     bind_res (load_global ''raw_input_data_s3_uri'' (raw_input_data_s3_uri g)) (\<lambda>raw.
       Inr (evaluation_step_descriptor py region role_arg training_step_arg raw))"

text \<open>\<open>xs[i]\<close> for a literal index \<open>i \<ge> 0\<close>.\<close>

definition subscript :: "'a list \<Rightarrow> nat \<Rightarrow> error + 'a" where
  "subscript xs i = (if i < length xs then Inr (xs ! i) else Inl IndexError)"

text \<open>
  Lines 422 to 429: the model metrics, together with the evaluation step as the call of
  \<open>arguments\<close> leaves it.
\<close>

definition model_metrics ::
    "platform \<Rightarrow> processing_step \<Rightarrow> error + model_metrics \<times> processing_step" where
  "model_metrics py evaluation_step_arg =
     bind_res (step_arguments py evaluation_step_arg) (\<lambda>(normalised_step, request_outputs).
     bind_res (subscript request_outputs 0) (\<lambda>out.
       Inr (\<lparr> model_statistics =
                \<lparr> s3_uri = S3Uri out @ ''/evaluation.json'',
                  ms_content_type = ''application/json'' \<rparr> \<rparr>,
            normalised_step)))"

subsection \<open>Lines 435 to 480: the registration step and the condition step\<close>

definition inference_image_uri :: "platform \<Rightarrow> string \<Rightarrow> error + string" where
  "inference_image_uri py region =
     image_uris_retrieve py ''tensorflow'' region ''2.3.1'' ''py37'' deploy_instance_type ''inference''"

text \<open>\<open>model_data\<close> reads the global \<open>step_train\<close>; the training step is the local
  \<open>training_step\<close>.\<close>

definition register_step ::
    "namespace \<Rightarrow> estimator \<Rightarrow> string \<Rightarrow> string \<Rightarrow> error + register_model" where
  "register_step g estimator_arg inference_image_uri_arg model_package_group_name_arg =
     bind_res (load_global ''step_train'' (step_train g)) (\<lambda>st.
       Inr \<lparr> rm_name = ''RegisterBERTModel'',
             rm_estimator = estimator_arg,
             image_uri = inference_image_uri_arg,
             model_data = model_artifacts_property st,
             content_types = [''text/csv''],
             response_types = [''text/csv''],
             inference_instances = [deploy_instance_type],
             transform_instances = [deploy_instance_type],
             model_package_group_name = model_package_group_name_arg,
             approval_status = model_approval_status \<rparr>)"

definition minimum_accuracy_condition :: "processing_step \<Rightarrow> condition" where
  "minimum_accuracy_condition evaluation_step_arg =
     ConditionGreaterThanOrEqualTo
       \<lparr> jg_step = evaluation_step_arg,
         jg_property_file = evaluation_report,
         json_path = ''metrics.accuracy.value'' \<rparr>
       (1 / 100)"

definition minimum_accuracy_condition_step :: "processing_step \<Rightarrow> register_model \<Rightarrow> step" where
  "minimum_accuracy_condition_step evaluation_step_arg register_step_arg =
     ConditionStep ''AccuracyCondition''
       [minimum_accuracy_condition evaluation_step_arg]
       [RegisterModel register_step_arg]
       []"

subsection \<open>Lines 87 to 505: \<open>get_pipeline\<close>\<close>

text \<open>
  Lines 483 to 504 build the descriptor that is returned (\<open>pipeline\<close>). The body runs
  the statements in the order Python does, and the first statement that raises ends the
  call: a call into a library that raises, a local name read before its import, a
  global name that does not resolve. The evaluation step the pipeline holds is the object
  the call of \<open>arguments\<close> has normalised. The path \<open>train_src\<close> of line 294 is never
  used, and the \<open>print\<close> calls write diagnostics that no descriptor depends on: they are
  left out. The model metrics are built (line 422) and handed to no step.
\<close>

definition pipeline ::
    "platform \<Rightarrow> namespace \<Rightarrow> rat \<Rightarrow> rat \<Rightarrow> rat \<Rightarrow> string \<Rightarrow> string \<Rightarrow>
     training_step \<Rightarrow> processing_step \<Rightarrow> register_model \<Rightarrow> pipeline" where
  "pipeline py g tr va te role_arg pipeline_name training_step_v evaluation_step_v register_step_v =
     \<lparr> pl_name = pipeline_name,
       parameters =
         [input_data g,
          processing_instance_count,
          processing_instance_type,
          max_seq_length,
          balance_dataset,
          train_split_percentage tr,
          validation_split_percentage va,
          test_split_percentage te,
          feature_store_offline_prefix g,
          feature_group_name g,
          train_instance_type,
          train_instance_count,
          model_approval_status,
          deploy_instance_type,
          deploy_instance_count],
       steps =
         [ProcessingStep (processing_step py g tr va te role_arg),
          TrainingStep training_step_v,
          ProcessingStep evaluation_step_v,
          minimum_accuracy_condition_step evaluation_step_v register_step_v],
       sagemaker_session = sess g \<rparr>"

definition get_pipeline_body ::
    "platform \<Rightarrow> namespace \<Rightarrow> rat \<Rightarrow> rat \<Rightarrow> rat \<Rightarrow>
     string \<Rightarrow> string \<Rightarrow> string \<Rightarrow> string \<Rightarrow> string \<Rightarrow> string \<Rightarrow> error + pipeline" where
  "get_pipeline_body py g tr va te
       region role_arg default_bucket_arg pipeline_name model_package_group_name_arg base_job_prefix =
     bind_res (boto3_client py region) (\<lambda>sm.
     bind_res (load_fast ''SKLearnProcessor'' 194) (\<lambda>_.
     bind_res (load_global ''TensorFlow'' (TensorFlow g)) (\<lambda>tensorflow.
     let estimator_v = tensorflow (estimator_kwargs g role_arg default_bucket_arg base_job_prefix)
     in bind_res (training_step g estimator_v) (\<lambda>training_step_v.
        bind_res (load_fast ''SKLearnProcessor'' 375) (\<lambda>_.
        bind_res (load_fast ''PropertyFile'' 388) (\<lambda>_.
        bind_res (evaluation_step py g region role_arg training_step_v) (\<lambda>evaluation_step_0.
        bind_res (load_fast ''ModelMetrics'' 422) (\<lambda>_.
        bind_res (load_fast ''MetricsSource'' 423) (\<lambda>_.
        bind_res (model_metrics py evaluation_step_0) (\<lambda>(model_metrics_v, evaluation_step_v).
        bind_res (inference_image_uri py region) (\<lambda>inference_image_uri_v.
        bind_res (register_step g estimator_v inference_image_uri_v model_package_group_name_arg)
          (\<lambda>register_step_v.
        bind_res (load_fast ''ConditionGreaterThanOrEqualTo'' 466) (\<lambda>_.
        bind_res (load_fast ''JsonGet'' 467) (\<lambda>_.
        bind_res (load_fast ''ConditionStep'' 475) (\<lambda>_.
          Inr (pipeline py g tr va te role_arg pipeline_name
                 training_step_v evaluation_step_v register_step_v))))))))))))))))"

definition get_pipeline ::
    "platform \<Rightarrow> namespace \<Rightarrow>
     string \<Rightarrow> string \<Rightarrow> string \<Rightarrow> string \<Rightarrow> string \<Rightarrow> string \<Rightarrow> error + pipeline" where
  "get_pipeline py g = get_pipeline_body py g (90 / 100) (5 / 100) (5 / 100)"

subsection \<open>The orchestrator's reading of a descriptor\<close>

text \<open>
  Modelled from the spec: the managed service that runs the pipeline is not part of the
  repository. A Parameter is "a named, typed, defaulted value exposed for override at
  submission time": \<open>at_submission\<close> replaces a parameter by its override, or by its
  default when there is none, and leaves everything else as the builder wrote it.
\<close>

definition resolve :: "(string \<rightharpoonup> pyval) \<Rightarrow> parameter \<Rightarrow> pyval" where
  "resolve overrides p = (case overrides (name p) of Some v \<Rightarrow> v | None \<Rightarrow> default_value p)"

fun at_submission :: "(string \<rightharpoonup> pyval) \<Rightarrow> expr \<Rightarrow> expr" where
  "at_submission overrides (Param p) = Lit (resolve overrides p)"
| "at_submission overrides (Lit v) = Lit v"
| "at_submission overrides (Property s ps) = Property s ps"

text \<open>
  Modelled from the spec: a Condition is "a comparison between a metric extracted from a
  prior step's output artifact and a literal threshold, with two branches (if/else), each
  branch being a list of steps"; "if the condition holds, execute the registration branch;
  otherwise, the pipeline ends with no further steps". \<open>metric\<close> is the value found at
  the condition's JSON path. A metric and the threshold are floats of the service; the
  order of two floats is the order of the rationals they denote, and no float lies
  strictly between \<open>1 / 100\<close> and the float the literal \<open>0.01\<close> denotes.
\<close>

fun condition_holds :: "condition \<Rightarrow> rat \<Rightarrow> bool" where
  "condition_holds (ConditionGreaterThanOrEqualTo l r) metric = (r \<le> metric)"

fun branch_taken :: "step \<Rightarrow> rat \<Rightarrow> step list" where
  "branch_taken (ConditionStep n cs ifs elses) metric =
     (if list_all (\<lambda>c. condition_holds c metric) cs then ifs else elses)"
| "branch_taken s metric = []"

text \<open>The bucket an S3 location \<open>s3://bucket/key\<close> names.\<close>

definition s3_bucket_of :: "string \<Rightarrow> string" where
  "s3_bucket_of uri = takeWhile (\<lambda>c. c \<noteq> CHR ''/'') (drop 5 uri)"

subsection \<open>A platform and two namespaces to evaluate the builder on\<close>

text \<open>
  \<open>str\<close> on the float that a decimal literal of at most fifteen significant digits
  denotes: the shortest decimal that reads back as that float, with an exponent below
  \<open>1e-4\<close> and from \<open>1e16\<close> on. \<open>n\<close> and \<open>d\<close> are the numerator and the denominator of
  the absolute value.
\<close>

fun fraction_digits :: "nat \<Rightarrow> nat \<Rightarrow> nat \<Rightarrow> string" where
  "fraction_digits 0 r d = []"
| "fraction_digits (Suc fuel) r d =
     (if r = 0 then [] else digit_char (r * 10 div d) # fraction_digits fuel (r * 10 mod d) d)"

definition positional :: "nat \<Rightarrow> nat \<Rightarrow> string" where
  "positional n d =
     (let frac = fraction_digits 17 (n mod d) d
      in str_nat (n div d) @ ''.'' @ (if frac = [] then ''0'' else frac))"

fun exponent_below :: "nat \<Rightarrow> nat \<Rightarrow> nat \<Rightarrow> nat" where
  "exponent_below 0 n d = 0"
| "exponent_below (Suc fuel) n d = (if n < d then Suc (exponent_below fuel (n * 10) d) else 0)"

fun exponent_above :: "nat \<Rightarrow> nat \<Rightarrow> nat \<Rightarrow> nat" where
  "exponent_above 0 n d = 0"
| "exponent_above (Suc fuel) n d = (if d * 10 \<le> n then Suc (exponent_above fuel n (d * 10)) else 0)"

definition mantissa :: "nat \<Rightarrow> nat \<Rightarrow> string" where
  "mantissa n d =
     (let frac = fraction_digits 17 (n mod d) d
      in str_nat (n div d) @ (if frac = [] then [] else ''.'' @ frac))"

definition exponent_digits :: "nat \<Rightarrow> string" where
  "exponent_digits k = (if k < 10 then ''0'' @ str_nat k else str_nat k)"

definition python_float_str :: "rat \<Rightarrow> string" where
  "python_float_str x =
     (let (p, q) = quotient_of x;
          n = nat \<bar>p\<bar>;
          d = nat q;
          sign = (if p < 0 then ''-'' else [])
      in if n = 0 then ''0.0''
         else if n * 10000 < d then
           (let k = exponent_below 400 n d
            in sign @ mantissa (n * 10 ^ k) d @ ''e-'' @ exponent_digits k)
         else if d * 10 ^ 16 \<le> n then
           (let k = exponent_above 400 n d
            in sign @ mantissa n (d * 10 ^ k) @ ''e+'' @ exponent_digits k)
         else sign @ positional n d)"

text \<open>
  A machine on which the client is created for a region name that is a host label (at most
  63 letters, digits and hyphens, no hyphen at either end, not digits only) and refused
  otherwise, the working directory does not hold the evaluation script, so that the call
  of \<open>arguments\<close> raises, and the image registry knows the TensorFlow inference image.
\<close>

definition host_label :: "string \<Rightarrow> bool" where
  "host_label r =
     (r \<noteq> [] \<and> length r \<le> 63
      \<and> list_all (\<lambda>c. c \<in> set ''abcdefghijklmnopqrstuvwxyzABCDEFGHIJKLMNOPQRSTUVWXYZ0123456789-'') r
      \<and> hd r \<noteq> CHR ''-'' \<and> last r \<noteq> CHR ''-''
      \<and> list_ex (\<lambda>c. c \<notin> set ''0123456789'') r)"

definition example_platform :: platform where
  "example_platform =
     \<lparr> float_str = python_float_str,
       boto3_client = (\<lambda>region.
          if host_label region then Inr ()
          else Inl (LibraryError ''InvalidRegionError'')),
       step_arguments = (\<lambda>s. Inl (LibraryError ''ValueError: code evaluate_model_metrics.py was not found'')),
       image_uris_retrieve = (\<lambda>framework region version py instance scope.
          Inr (''763104351884.dkr.ecr.'' @ region @ ''.amazonaws.com/'' @ framework @ ''-'' @ scope
               @ '':'' @ version @ ''-cpu'')) \<rparr>"

text \<open>The namespace the module has once imported.\<close>

definition loaded_namespace :: namespace where
  "loaded_namespace =
     module_namespace \<lparr> default_bucket = ''sagemaker-us-east-1-1234'' \<rparr> 17 ''/opt/ml/pipelines/dsoaws''"

text \<open>
  The same namespace after the four missing names have been bound in it: to the estimator
  class, to the processing step, to the input data parameter and to a training step.
\<close>

definition patched_namespace :: namespace where
  "patched_namespace =
     loaded_namespace
       \<lparr> TensorFlow := Some (\<lambda>kwargs. kwargs),
         step_process := Some (processing_step example_platform loaded_namespace (90 / 100) (5 / 100) (5 / 100) ''role''),
         raw_input_data_s3_uri := Some (Param (input_data loaded_namespace)),
         step_train := Some \<lparr> ts_name = ''Train'',
                               ts_estimator = estimator_kwargs loaded_namespace ''role'' ''bucket'' ''prefix'',
                               ts_inputs = [] \<rparr> \<rparr>"

section \<open>Properties\<close>

subsection \<open>Name resolution\<close>

lemma load_fast_SKLearnProcessor_194:
  "load_fast ''SKLearnProcessor'' 194 = Inl (UnboundLocalError ''SKLearnProcessor'')"
  by (simp add: load_fast_def function_imports_def)

text \<open>Every other read of a name that the function imports comes after the import.\<close>

lemma load_fast_after_import:
  "load_fast ''SKLearnProcessor'' 375 = Inr ()"
  "load_fast ''PropertyFile'' 388 = Inr ()"
  "load_fast ''ModelMetrics'' 422 = Inr ()"
  "load_fast ''MetricsSource'' 423 = Inr ()"
  "load_fast ''ConditionGreaterThanOrEqualTo'' 466 = Inr ()"
  "load_fast ''JsonGet'' 467 = Inr ()"
  "load_fast ''ConditionStep'' 475 = Inr ()"
  by (simp_all add: load_fast_def function_imports_def)

text \<open>
  The call ends at line 194 at the latest, whatever the module namespace holds and
  whatever the split percentages are.
\<close>

lemma get_pipeline_body_raises:
  "get_pipeline_body py g tr va te region ro db pn mpg bjp =
     (case boto3_client py region of
        Inl e \<Rightarrow> Inl e
      | Inr sm \<Rightarrow> Inl (UnboundLocalError ''SKLearnProcessor''))"
  by (cases "boto3_client py region")
     (simp_all add: get_pipeline_body_def load_fast_SKLearnProcessor_194)

lemma training_step_unbound:
  "step_process g = None \<Longrightarrow> training_step g est = Inl (NameError ''step_process'')"
  by (simp add: training_step_def)

lemma evaluation_step_unbound:
  "raw_input_data_s3_uri g = None \<Longrightarrow>
   evaluation_step py g region ro ts = Inl (NameError ''raw_input_data_s3_uri'')"
  by (simp add: evaluation_step_def)

lemma register_step_unbound:
  "step_train g = None \<Longrightarrow> register_step g est uri mpg = Inl (NameError ''step_train'')"
  by (simp add: register_step_def)

lemma example_client: "boto3_client example_platform ''us-east-1'' = Inr ()"
  by (simp add: example_platform_def host_label_def)

lemma s3_bucket_of_uri:
  "CHR ''/'' \<notin> set b \<Longrightarrow> s3_bucket_of (''s3://'' @ b @ ''/'' @ rest) = b"
  by (simp add: s3_bucket_of_def takeWhile_append)

subsection \<open>The call of the builder\<close>

text \<open>
  C1. The claim is that \<open>get_pipeline\<close> returns, for every input, a Pipeline with the
  fifteen parameters and the four top-level steps. No call returns a pipeline, in any
  module namespace: when the client of line 106 has been created, the call raises
  \<open>UnboundLocalError\<close> at line 194, where the processor is built from \<open>SKLearnProcessor\<close>,
  a name that the import of line 373 makes local to the function.
\<close>

theorem get_pipeline_returns_no_pipeline:
  "get_pipeline py g region ro db pn mpg bjp \<noteq> Inr p
   \<and> get_pipeline py g region ro db pn mpg bjp =
       (case boto3_client py region of
          Inl e \<Rightarrow> Inl e
        | Inr sm \<Rightarrow> Inl (UnboundLocalError ''SKLearnProcessor''))"
  by (simp add: get_pipeline_def get_pipeline_body_raises split: sum.split)

text \<open>
  C2, as stated: the call fails because of the three names \<open>step_process\<close>,
  \<open>raw_input_data_s3_uri\<close> and \<open>step_train\<close>, which are never defined. It does not: with
  the three names (and \<open>TensorFlow\<close>) bound in the module namespace the call fails as it
  does in the loaded module, on the local \<open>SKLearnProcessor\<close>.
\<close>

theorem get_pipeline_fails_with_the_three_names_bound:
  "step_process patched_namespace \<noteq> None
   \<and> raw_input_data_s3_uri patched_namespace \<noteq> None
   \<and> step_train patched_namespace \<noteq> None
   \<and> get_pipeline example_platform patched_namespace
         ''us-east-1'' ''role'' ''bucket'' ''bert-pipeline'' ''bert-models'' ''prefix''
       = Inl (UnboundLocalError ''SKLearnProcessor'')
   \<and> get_pipeline example_platform loaded_namespace
         ''us-east-1'' ''role'' ''bucket'' ''bert-pipeline'' ''bert-models'' ''prefix''
       = Inl (UnboundLocalError ''SKLearnProcessor'')"
  by (simp add: get_pipeline_def get_pipeline_body_raises example_client patched_namespace_def)

text \<open>
  C2, amended. For every input and in every module namespace the call of the builder
  fails and returns no value; once the client of line 106 is created, it raises
  \<open>UnboundLocalError\<close> on \<open>SKLearnProcessor\<close> at line 194. The statements that read the
  three never-defined names are not reached; in the loaded module each of them raises
  \<open>NameError\<close> on its name: the training step statement on \<open>step_process\<close>, the evaluation
  step statement on \<open>raw_input_data_s3_uri\<close>, the registration statement on \<open>step_train\<close>.
\<close>

theorem get_pipeline_fails_at_call_time:
  "(\<exists>e. get_pipeline py g region ro db pn mpg bjp = Inl e)
   \<and> (boto3_client py region = Inr sm \<longrightarrow>
        get_pipeline py g region ro db pn mpg bjp = Inl (UnboundLocalError ''SKLearnProcessor''))
   \<and> training_step (module_namespace the_session ticks file_dir) est
       = Inl (NameError ''step_process'')
   \<and> evaluation_step py (module_namespace the_session ticks file_dir) region ro ts
       = Inl (NameError ''raw_input_data_s3_uri'')
   \<and> register_step (module_namespace the_session ticks file_dir) est uri mpg
       = Inl (NameError ''step_train'')"
proof (intro conjI impI)
  show "\<exists>e. get_pipeline py g region ro db pn mpg bjp = Inl e"
    by (cases "boto3_client py region")
       (simp_all add: get_pipeline_def get_pipeline_body_raises)
  show "get_pipeline py g region ro db pn mpg bjp = Inl (UnboundLocalError ''SKLearnProcessor'')"
    if "boto3_client py region = Inr sm"
    using that by (simp add: get_pipeline_def get_pipeline_body_raises)
  show "training_step (module_namespace the_session ticks file_dir) est
       = Inl (NameError ''step_process'')"
    by (simp add: training_step_unbound module_namespace_def)
  show "evaluation_step py (module_namespace the_session ticks file_dir) region ro ts
       = Inl (NameError ''raw_input_data_s3_uri'')"
    by (simp add: evaluation_step_unbound module_namespace_def)
  show "register_step (module_namespace the_session ticks file_dir) est uri mpg
       = Inl (NameError ''step_train'')"
    by (simp add: register_step_unbound module_namespace_def)
qed

theorem get_pipeline_fails_at_call_time_witness:
  "boto3_client example_platform ''us-east-1'' = Inr ()
   \<and> get_pipeline example_platform loaded_namespace
         ''us-east-1'' ''role'' ''bucket'' ''bert-pipeline'' ''bert-models'' ''prefix''
       = Inl (UnboundLocalError ''SKLearnProcessor'')"
  using get_pipeline_fails_at_call_time
    [of example_platform loaded_namespace "''us-east-1''" "''role''" "''bucket''"
        "''bert-pipeline''" "''bert-models''" "''prefix''" "()"]
  by (simp add: example_client)

text \<open>
  C9. The claim is about the two descriptors that two calls return. Two calls that differ
  in \<open>pipeline_name\<close> only end in the same error, and neither returns a descriptor.
\<close>

theorem two_calls_return_no_descriptor:
  "get_pipeline py g region ro db pn1 mpg bjp = get_pipeline py g region ro db pn2 mpg bjp
   \<and> get_pipeline py g region ro db pn1 mpg bjp \<noteq> Inr p1
   \<and> get_pipeline py g region ro db pn2 mpg bjp \<noteq> Inr p2"
  by (simp add: get_pipeline_def get_pipeline_body_raises split: sum.split)

text \<open>
  C8. The builder validates no parameter range. Whatever the three split percentages
  are (they need not lie between 0 and 1, nor add up to 1), the three parameters are
  declared with these very values as defaults, and the call ends as it does at the values
  the source declares: in the error of the client of line 106, which depends on the region
  alone, or in the \<open>UnboundLocalError\<close> of line 194. No error is raised on account of the
  values.
\<close>

theorem no_validation_of_split_percentages:
  "default_value (train_split_percentage tr) = PyFloat tr
   \<and> default_value (validation_split_percentage va) = PyFloat va
   \<and> default_value (test_split_percentage te) = PyFloat te
   \<and> get_pipeline_body py g tr va te region ro db pn mpg bjp
       = get_pipeline py g region ro db pn mpg bjp
   \<and> get_pipeline_body py g tr va te region ro db pn mpg bjp =
       (case boto3_client py region of
          Inl e \<Rightarrow> Inl e
        | Inr sm \<Rightarrow> Inl (UnboundLocalError ''SKLearnProcessor''))"
  by (simp add: train_split_percentage_def validation_split_percentage_def
      test_split_percentage_def get_pipeline_def get_pipeline_body_raises)

subsection \<open>The training step\<close>

text \<open>
  C3. The claim is that the three channels of the training step refer to the three
  outputs of the processing step. The statement of lines 346 to 369 does not read the
  processing step, which is the local \<open>processing_step\<close>: it reads the global
  \<open>step_process\<close>. In the loaded module it raises \<open>NameError\<close>; with \<open>step_process\<close> bound
  to a step, whichever it is, the channels refer to the outputs of that step.
\<close>

theorem training_step_reads_step_process:
  "training_step (module_namespace the_session ticks file_dir) est
     = Inl (NameError ''step_process'')
   \<and> training_step (g \<lparr> step_process := Some sp \<rparr>) est =
       Inr \<lparr> ts_name = ''Train'', ts_estimator = est,
             ts_inputs =
               [(''train'', \<lparr> s3_data = Property (ps_name sp)
                                [Attr ''ProcessingOutputConfig'', Attr ''Outputs'', Key ''bert-train'',
                                 Attr ''S3Output'', Attr ''S3Uri''],
                              content_type = ''text/csv'' \<rparr>),
                (''validation'', \<lparr> s3_data = Property (ps_name sp)
                                [Attr ''ProcessingOutputConfig'', Attr ''Outputs'', Key ''bert-validation'',
                                 Attr ''S3Output'', Attr ''S3Uri''],
                              content_type = ''text/csv'' \<rparr>),
                (''test'', \<lparr> s3_data = Property (ps_name sp)
                                [Attr ''ProcessingOutputConfig'', Attr ''Outputs'', Key ''bert-test'',
                                 Attr ''S3Output'', Attr ''S3Uri''],
                              content_type = ''text/csv'' \<rparr>)] \<rparr>"
  by (simp add: training_step_def module_namespace_def output_s3_uri_property_def)

subsection \<open>The processing step\<close>

text \<open>
  C4. The processing step has one input, named raw-input-data, whose source is the
  parameter InputDataUrl and whose distribution is ShardedByS3Key, and three outputs,
  named bert-train, bert-validation and bert-test. Its job arguments are string literals:
  the flags, and \<open>str\<close> of the default values of the parameters. No job argument is a
  parameter, so whatever the overrides given at submission, the job arguments stay as the
  builder wrote them.
\<close>

theorem processing_step_inputs_outputs_arguments:
  "inputs (processing_step py g tr va te ro) =
     [\<lparr> input_name = Some ''raw-input-data'',
        pi_source = Param (input_data g),
        pi_destination = ''/opt/ml/processing/input/data/'',
        s3_data_distribution_type = Some ''ShardedByS3Key'' \<rparr>]
   \<and> name (input_data g) = ''InputDataUrl''
   \<and> map output_name (outputs (processing_step py g tr va te ro))
       = [''bert-train'', ''bert-validation'', ''bert-test'']
   \<and> job_arguments (processing_step py g tr va te ro) =
       map (\<lambda>s. Lit (PyStr s))
         [''--train-split-percentage'',
          py_str (float_str py) (default_value (train_split_percentage tr)),
          ''--validation-split-percentage'',
          py_str (float_str py) (default_value (validation_split_percentage va)),
          ''--test-split-percentage'',
          py_str (float_str py) (default_value (test_split_percentage te)),
          ''--max-seq-length'', ''64'',
          ''--balance-dataset'', ''True'',
          ''--feature-store-offline-prefix'', ''reviews-feature-store-'' @ timestamp g,
          ''--feature-group-name'', ''reviews-feature-group-'' @ timestamp g]
   \<and> py_str (float_str py) (default_value (train_split_percentage tr)) = float_str py tr
   \<and> map (at_submission overrides) (job_arguments (processing_step py g tr va te ro))
       = job_arguments (processing_step py g tr va te ro)"
  apply (intro conjI)
  subgoal by (simp add: processing_step_def processing_inputs_def)
  subgoal by (simp add: input_data_def)
  subgoal by (simp add: processing_step_def processing_outputs_def)
  subgoal by (simp add: processing_step_def str_lit_def max_seq_length_def balance_dataset_def
      feature_store_offline_prefix_def feature_group_name_def str_int_def str_nat.simps digit_char_def)
  subgoal by (simp add: train_split_percentage_def)
  subgoal by (simp add: processing_step_def str_lit_def)
  done

subsection \<open>The evaluation step, the model metrics and the condition\<close>


text \<open>
  C6. The condition step compares the value at the JSON path metrics.accuracy.value of
  the evaluation step's property file with the threshold 0.01, by greater-than-or-equal.
  Its if-branch is the registration step alone and its else-branch is empty: for every
  metric at or above the threshold the steps that follow are the registration step, and
  for every metric below it there is none (and no step that signals a failure).
\<close>

theorem accuracy_condition_branches:
  "conditions (minimum_accuracy_condition_step ev r) =
     [ConditionGreaterThanOrEqualTo
        \<lparr> jg_step = ev, jg_property_file = evaluation_report,
          json_path = ''metrics.accuracy.value'' \<rparr> (1 / 100)]
   \<and> if_steps (minimum_accuracy_condition_step ev r) = [RegisterModel r]
   \<and> else_steps (minimum_accuracy_condition_step ev r) = []
   \<and> branch_taken (minimum_accuracy_condition_step ev r) metric
       = (if 1 / 100 \<le> metric then [RegisterModel r] else [])"
  by (simp add: minimum_accuracy_condition_step_def minimum_accuracy_condition_def)

subsection \<open>The assembled pipeline\<close>


subsection \<open>The two buckets\<close>

text \<open>
  C10, as stated: whenever the argument \<open>default_bucket\<close> differs from the default bucket
  of the session, the default input location and the model output location name
  different buckets. The builder takes \<open>default_bucket\<close> as it comes: with the session
  bucket \<open>a\<close> and the argument \<open>a/b\<close> both locations lie in the bucket \<open>a\<close>.
\<close>

theorem input_data_and_model_path_same_bucket:
  "''a/b'' \<noteq> default_bucket \<lparr> default_bucket = ''a'' \<rparr>
   \<and> default_value (input_data (module_namespace \<lparr> default_bucket = ''a'' \<rparr> 17 ''/opt/ml/pipelines/dsoaws''))
       = PyStr ''s3://a/amazon-reviews-pds/tsv/''
   \<and> output_path (estimator_kwargs (module_namespace \<lparr> default_bucket = ''a'' \<rparr> 17 ''/opt/ml/pipelines/dsoaws'')
         ''role'' ''a/b'' ''prefix'')
       = ''s3://a/b/prefix/output/model''
   \<and> s3_bucket_of ''s3://a/amazon-reviews-pds/tsv/'' = ''a''
   \<and> s3_bucket_of ''s3://a/b/prefix/output/model'' = ''a''"
  by (simp add: input_data_def module_namespace_def estimator_kwargs_def model_path_def
      s3_bucket_of_def)

text \<open>
  C10, amended. In the loaded module the default value of InputDataUrl is built from the
  default bucket of the module's session, and the output path of the estimator from the
  argument \<open>default_bucket\<close>. When the two bucket names differ and neither holds a
  slash, the two locations name different buckets.
\<close>

theorem input_data_and_model_path_buckets:
  assumes "CHR ''/'' \<notin> set (default_bucket the_session)"
    and "CHR ''/'' \<notin> set db"
    and "db \<noteq> default_bucket the_session"
  shows "default_value (input_data (module_namespace the_session ticks file_dir))
           = PyStr (''s3://'' @ default_bucket the_session @ ''/amazon-reviews-pds/tsv/'')
       \<and> output_path (estimator_kwargs (module_namespace the_session ticks file_dir) ro db bjp)
           = ''s3://'' @ db @ ''/'' @ bjp @ ''/output/model''
       \<and> s3_bucket_of (''s3://'' @ default_bucket the_session @ ''/amazon-reviews-pds/tsv/'')
           = default_bucket the_session
       \<and> s3_bucket_of (output_path (estimator_kwargs (module_namespace the_session ticks file_dir) ro db bjp))
           = db
       \<and> s3_bucket_of (''s3://'' @ default_bucket the_session @ ''/amazon-reviews-pds/tsv/'')
           \<noteq> s3_bucket_of (output_path (estimator_kwargs (module_namespace the_session ticks file_dir) ro db bjp))"
proof -
  have a: "s3_bucket_of (''s3://'' @ default_bucket the_session @ ''/amazon-reviews-pds/tsv/'')
           = default_bucket the_session"
    using s3_bucket_of_uri [OF assms(1), of "''amazon-reviews-pds/tsv/''"] by simp
  have p: "output_path (estimator_kwargs (module_namespace the_session ticks file_dir) ro db bjp)
           = ''s3://'' @ db @ ''/'' @ bjp @ ''/output/model''"
    by (simp add: estimator_kwargs_def model_path_def)
  have b: "s3_bucket_of (''s3://'' @ db @ ''/'' @ bjp @ ''/output/model'') = db"
    using s3_bucket_of_uri [OF assms(2)] by simp
  have i: "default_value (input_data (module_namespace the_session ticks file_dir))
           = PyStr (''s3://'' @ default_bucket the_session @ ''/amazon-reviews-pds/tsv/'')"
    by (simp add: input_data_def module_namespace_def)
  from a b p i assms(3) show ?thesis by simp
qed

theorem input_data_and_model_path_buckets_witness:
  "s3_bucket_of (''s3://sagemaker-us-east-1-1234/amazon-reviews-pds/tsv/'') = ''sagemaker-us-east-1-1234''
   \<and> s3_bucket_of (output_path (estimator_kwargs loaded_namespace ''role'' ''bucket'' ''prefix'')) = ''bucket''
   \<and> default_value (input_data loaded_namespace) = PyStr ''s3://sagemaker-us-east-1-1234/amazon-reviews-pds/tsv/''
   \<and> output_path (estimator_kwargs loaded_namespace ''role'' ''bucket'' ''prefix'') = ''s3://bucket/prefix/output/model''"
  using input_data_and_model_path_buckets
    [of "\<lparr> default_bucket = ''sagemaker-us-east-1-1234'' \<rparr>" "''bucket''" 17
        "''/opt/ml/pipelines/dsoaws''" "''role''" "''prefix''"]
  by (auto simp add: loaded_namespace_def)

end
